theory Spec2Isabelle
  imports Complex_Main
begin

section \<open>Fertilizer recommender: a shallow embedding of \<^verbatim>\<open>app.py\<close>\<close>

text \<open>
  The program is a Flask application with two process-wide globals (\<^verbatim>\<open>model\<close> and
  \<^verbatim>\<open>label_encoders\<close>), a loader that fills them from two pickle files, a helper that
  lists the categorical options, and three route handlers. The embedding keeps the
  globals in a record that every operation receives and returns, turns each Python
  exception into a value of type \<open>exn\<close>, and takes the behaviour of third-party
  code (the float parser of the interpreter, the fitted classifier, the file system
  and the unpickler) as parameters.
\<close>

subsection \<open>Exceptions\<close>

text \<open>
  Only subclasses of \<^verbatim>\<open>Exception\<close> are modelled; the kind records which
  \<^verbatim>\<open>except\<close> clause of the source catches the value. \<open>OtherException\<close> stands
  for every class that is neither one of the named ones nor a subclass of
  \<^verbatim>\<open>TypeError\<close>, \<^verbatim>\<open>ValueError\<close> or \<^verbatim>\<open>FileNotFoundError\<close>.
  The message is what \<^verbatim>\<open>str(e)\<close> gives.
\<close>

datatype exn_kind =
    FileNotFoundError
  | TypeError
  | ValueError
  | OverflowError
  | AttributeError
  | KeyError
  | OtherException

datatype exn = Exn (kind: exn_kind) (message: string)

text \<open>Sequencing of statements that may raise: the first exception wins.\<close>

definition bindE :: "exn + 'a \<Rightarrow> ('a \<Rightarrow> exn + 'b) \<Rightarrow> exn + 'b" where
  "bindE x f = (case x of Inl e \<Rightarrow> Inl e | Inr v \<Rightarrow> f v)"

subsection \<open>Values of a request body\<close>

text \<open>
  The value of \<^verbatim>\<open>request.json\<close> is either a dictionary or some other Python value
  (a list, a string, a number, \<^verbatim>\<open>None\<close>), for which only the name of its type
  matters. The values stored under the keys of the dictionary are JSON values:
  scalars, arrays and objects. The type \<open>'f\<close> is the type of Python floats.
  Evaluating \<^verbatim>\<open>request.json\<close> may itself raise (a body that is not JSON), so a
  handler receives a value of type \<open>exn + 'f payload\<close>.
\<close>

datatype 'f json =
    JNull
  | JBool bool
  | JInt int
  | JFloat 'f
  | JStr string
  | JArr "'f json list"
  | JObj "(string \<times> 'f json) list"

datatype 'f payload = Object "(string \<times> 'f json) list" | NonObject string

subsection \<open>Label encoders\<close>

text \<open>
  A fitted label encoder is its array \<^verbatim>\<open>classes_\<close> (the field is named \<open>classes\<close>
  here, a name cannot end in an underscore) together with the dtype of that array:
  fixed-width strings when the encoder was fitted on a list or an array of strings,
  Python objects when it was fitted on a column of objects.
\<close>

datatype np_dtype = FixedWidth | PyObject

record LabelEncoder =
  classes :: "string list"
  dtype :: np_dtype

type_synonym encoders = "(string \<times> LabelEncoder) list"

subsection \<open>The runtime\<close>

text \<open>
  The parts of the Python runtime and of the libraries that the program relies on and
  that are not part of the repository:
  \<^item> \<^verbatim>\<open>float(s)\<close> on a string (\<open>None\<close> when it raises \<^verbatim>\<open>ValueError\<close>), the rounding
    of an integer to a float, and the text of a float inside an f-string;
  \<^item> the text of a list or a dictionary inside an f-string;
  \<^item> what numpy and scikit-learn do with a field that holds an array or an object,
    which depends on shapes and on the version of the libraries:
    \<open>container_lookup enc v\<close> is \<open>Inl e\<close> when \<^verbatim>\<open>v in enc.classes_\<close> raises \<open>e\<close>,
    \<open>Inr None\<close> when that test is false, and \<open>Inr (Some r)\<close> when it is true and
    \<^verbatim>\<open>enc.transform([v])[0]\<close> then gives \<open>r\<close>, an exception or a code.
\<close>

record 'f runtime =
  str_to_float :: "string \<Rightarrow> 'f option"
  int_to_float :: "int \<Rightarrow> 'f"
  float_repr :: "'f \<Rightarrow> string"
  container_repr :: "'f json \<Rightarrow> string"
  container_lookup :: "LabelEncoder \<Rightarrow> 'f json \<Rightarrow> exn + (exn + int) option"

text \<open>
  \<^verbatim>\<open>float(n)\<close> on an integer raises \<^verbatim>\<open>OverflowError\<close> when \<open>n\<close> rounds (to
  nearest, ties to even, 53 bits) beyond the largest double.
\<close>

definition float_overflows :: "int \<Rightarrow> bool" where
  "float_overflows n = (2 ^ 1024 - 2 ^ 970 \<le> \<bar>n\<bar>)"

text \<open>
  \<^verbatim>\<open>float(v)\<close>. The messages of the \<^verbatim>\<open>TypeError\<close> and \<^verbatim>\<open>ValueError\<close> are left
  empty: the handler that catches them never reads them.
\<close>

fun py_float :: "'f runtime \<Rightarrow> 'f json \<Rightarrow> exn + 'f" where
  "py_float rt JNull = Inl (Exn TypeError [])"
| "py_float rt (JBool b) = Inr (int_to_float rt (if b then 1 else 0))"
| "py_float rt (JInt n) =
     (if float_overflows n then Inl (Exn OverflowError ''int too large to convert to float'')
      else Inr (int_to_float rt n))"
| "py_float rt (JFloat x) = Inr x"
| "py_float rt (JStr s) =
     (case str_to_float rt s of None \<Rightarrow> Inl (Exn ValueError []) | Some x \<Rightarrow> Inr x)"
| "py_float rt (JArr xs) = Inl (Exn TypeError [])"
| "py_float rt (JObj kvs) = Inl (Exn TypeError [])"

text \<open>\<^verbatim>\<open>str(n)\<close> for an integer, and \<^verbatim>\<open>str(v)\<close> as an f-string renders it.\<close>

fun nat_str :: "nat \<Rightarrow> string" where
  "nat_str n =
     (if n < 10 then [char_of (48 + n)]
      else nat_str (n div 10) @ [char_of (48 + n mod 10)])"

definition int_str :: "int \<Rightarrow> string" where
  "int_str i = (if i < 0 then ''-'' @ nat_str (nat (- i)) else nat_str (nat i))"

fun py_str :: "'f runtime \<Rightarrow> 'f json \<Rightarrow> string" where
  "py_str rt JNull = ''None''"
| "py_str rt (JBool b) = (if b then ''True'' else ''False'')"
| "py_str rt (JInt n) = int_str n"
| "py_str rt (JFloat x) = float_repr rt x"
| "py_str rt (JStr s) = s"
| "py_str rt (JArr xs) = container_repr rt (JArr xs)"
| "py_str rt (JObj kvs) = container_repr rt (JObj kvs)"

text \<open>
  \<^verbatim>\<open>data.get(key)\<close>: a missing key gives \<^verbatim>\<open>None\<close>, and a value that has no
  \<^verbatim>\<open>get\<close> raises \<^verbatim>\<open>AttributeError\<close>.
\<close>

definition quoted :: "string \<Rightarrow> string" where
  "quoted s = [CHR 0x27] @ s @ [CHR 0x27]"

fun payload_get :: "'f payload \<Rightarrow> string \<Rightarrow> exn + 'f json" where
  "payload_get (Object d) k = Inr (case map_of d k of None \<Rightarrow> JNull | Some v \<Rightarrow> v)"
| "payload_get (NonObject ty) k =
     Inl (Exn AttributeError (quoted ty @ '' object has no attribute '' @ quoted ''get''))"

subsection \<open>Membership and encoding\<close>

text \<open>\<^verbatim>\<open>d[key]\<close> on a dictionary.\<close>

definition getitem :: "(string \<times> 'v) list \<Rightarrow> string \<Rightarrow> exn + 'v" where
  "getitem d k = (case map_of d k of None \<Rightarrow> Inl (Exn KeyError (quoted k)) | Some v \<Rightarrow> Inr v)"

text \<open>
  Two strings of a fixed-width array are equal when they agree up to trailing NUL
  characters, which are padding; two Python objects that are strings are equal when
  they are the same string. \<open>np_str enc s\<close> is what the comparison sees of \<open>s\<close>.
\<close>

definition rstrip_nul :: "string \<Rightarrow> string" where
  "rstrip_nul s = rev (dropWhile (\<lambda>c. c = CHR 0x00) (rev s))"

definition np_str :: "LabelEncoder \<Rightarrow> string \<Rightarrow> string" where
  "np_str enc s = (case dtype enc of FixedWidth \<Rightarrow> rstrip_nul s | PyObject \<Rightarrow> s)"

text \<open>
  \<^verbatim>\<open>v in enc.classes_\<close>: true for a string that equals one of the classes, false
  for \<^verbatim>\<open>None\<close>, a boolean or a number (which equal no string), and what the
  libraries make of it for an array or an object.
\<close>

fun np_contains :: "'f runtime \<Rightarrow> LabelEncoder \<Rightarrow> 'f json \<Rightarrow> exn + bool" where
  "np_contains rt enc (JStr s) = Inr (np_str enc s \<in> set (map (np_str enc) (classes enc)))"
| "np_contains rt enc (JArr xs) =
     (case container_lookup rt enc (JArr xs) of
        Inl e \<Rightarrow> Inl e | Inr None \<Rightarrow> Inr False | Inr (Some r) \<Rightarrow> Inr True)"
| "np_contains rt enc (JObj kvs) =
     (case container_lookup rt enc (JObj kvs) of
        Inl e \<Rightarrow> Inl e | Inr None \<Rightarrow> Inr False | Inr (Some r) \<Rightarrow> Inr True)"
| "np_contains rt enc v = Inr False"

fun index_of :: "string \<Rightarrow> string list \<Rightarrow> nat option" where
  "index_of s [] = None"
| "index_of s (c # cs) =
     (if s = c then Some 0 else map_option Suc (index_of s cs))"

text \<open>
  \<^verbatim>\<open>enc.transform([v])[0]\<close>: the position in the classes of the label that \<open>v\<close>
  equals. The program calls it only with a value that the membership test has
  accepted; for any other value the model raises the \<^verbatim>\<open>ValueError\<close> of a label that
  the encoder has not seen.
\<close>

fun transform :: "'f runtime \<Rightarrow> LabelEncoder \<Rightarrow> 'f json \<Rightarrow> exn + int" where
  "transform rt enc (JStr s) =
     (case index_of (np_str enc s) (map (np_str enc) (classes enc)) of
        None \<Rightarrow> Inl (Exn ValueError [])
      | Some i \<Rightarrow> Inr (int i))"
| "transform rt enc (JArr xs) =
     (case container_lookup rt enc (JArr xs) of
        Inr (Some r) \<Rightarrow> r | _ \<Rightarrow> Inl (Exn ValueError []))"
| "transform rt enc (JObj kvs) =
     (case container_lookup rt enc (JObj kvs) of
        Inr (Some r) \<Rightarrow> r | _ \<Rightarrow> Inl (Exn ValueError []))"
| "transform rt enc v = Inl (Exn ValueError [])"

text \<open>
  The classifier is opaque: one row of nine floats in, a label or an exception out.
\<close>

type_synonym 'f classifier = "'f list \<Rightarrow> exn + int"

subsection \<open>Process state\<close>

record 'f globals =
  model :: "'f classifier option"
  label_encoders :: "encoders option"
  stdout :: "string list"

definition initial_globals :: "'f globals" where
  "initial_globals = \<lparr>model = None, label_encoders = None, stdout = []\<rparr>"

definition print :: "string \<Rightarrow> 'f globals \<Rightarrow> 'f globals" where
  "print line g = g\<lparr>stdout := stdout g @ [line]\<rparr>"

definition MODEL_PATH :: string where
  "MODEL_PATH = ''decision_tree_model.pkl''"

definition ENCODER_PATH :: string where
  "ENCODER_PATH = ''label_encoders.pkl''"

definition FERTILIZER_MAPPING :: "(int \<times> string) list" where
  "FERTILIZER_MAPPING =
     [(0, ''Balanced NPK Fertilizer''),
      (1, ''Compost''),
      (2, ''DAP''),
      (3, ''General Purpose Fertilizer''),
      (4, ''Gypsum''),
      (5, ''Lime''),
      (6, ''Muriate of Potash''),
      (7, ''Organic Fertilizer''),
      (8, ''Urea''),
      (9, ''Water Retaining Fertilizer'')]"

text \<open>\<^verbatim>\<open>FERTILIZER_MAPPING.get(label, "Unknown Fertilizer")\<close>\<close>

definition fertilizer_name :: "int \<Rightarrow> string" where
  "fertilizer_name l =
     (case map_of FERTILIZER_MAPPING l of None \<Rightarrow> ''Unknown Fertilizer'' | Some n \<Rightarrow> n)"

subsection \<open>Loading the assets\<close>

text \<open>
  The file system gives, for a path, what \<^verbatim>\<open>open(path, 'rb')\<close> does: the content
  of the file, or the exception it raises (\<^verbatim>\<open>FileNotFoundError\<close> when there is no
  such file). Each of the two \<^verbatim>\<open>pickle.load\<close> calls gives the object or raises.
  An exception that is not an \<^verbatim>\<open>Exception\<close> (a keyboard interrupt) leaves
  \<^verbatim>\<open>load_assets\<close> without returning and is not modelled.
\<close>

type_synonym filesystem = "string \<Rightarrow> exn + string"

text \<open>The two \<^verbatim>\<open>except\<close> clauses of \<^verbatim>\<open>load_assets\<close>.\<close>

definition load_failed :: "exn \<Rightarrow> 'f globals \<Rightarrow> 'f globals" where
  "load_failed e g =
     (if kind e = FileNotFoundError then
        (print ''Please ensure the model and encoder files are in the same directory as app.py.''
          (print ([CHR 0xE2, CHR 0x9C, CHR 0x98] @ '' Error: One or both files ('' @ MODEL_PATH
                   @ '', '' @ ENCODER_PATH @ '') not found.'') g))
          \<lparr>model := None, label_encoders := None\<rparr>
      else
        (print ([CHR 0xE2, CHR 0x9C, CHR 0x98] @ '' Error loading assets: '' @ message e) g)
          \<lparr>model := None, label_encoders := None\<rparr>)"

definition load_assets ::
  "filesystem \<Rightarrow> (string \<Rightarrow> exn + 'f classifier) \<Rightarrow> (string \<Rightarrow> exn + encoders) \<Rightarrow>
   'f globals \<Rightarrow> 'f globals" where
  "load_assets fs load_model load_encoders g =
     (case bindE (fs MODEL_PATH) load_model of
        Inl e \<Rightarrow> load_failed e g
      | Inr m \<Rightarrow>
          (let g1 = g\<lparr>model := Some m\<rparr> in
           case bindE (fs ENCODER_PATH) load_encoders of
             Inl e \<Rightarrow> load_failed e g1
           | Inr le \<Rightarrow>
               print ([CHR 0xE2, CHR 0x9C, CHR 0x94]
                      @ '' Model and Label Encoders loaded successfully.'' @ [CHR 0x0A])
                 (g1\<lparr>label_encoders := Some le\<rparr>)))"

subsection \<open>Options of the categorical fields\<close>

text \<open>\<^verbatim>\<open>not label_encoders\<close> holds for \<^verbatim>\<open>None\<close> and for an empty dictionary.\<close>

definition get_categorical_options :: "'f globals \<Rightarrow> exn + (string \<times> string list) list" where
  "get_categorical_options g =
     (case label_encoders g of
        None \<Rightarrow> Inr [(''Soil'', []), (''Crop'', [])]
      | Some le \<Rightarrow>
          (if le = [] then Inr [(''Soil'', []), (''Crop'', [])]
           else bindE (getitem le ''Soil'') (\<lambda>se.
                bindE (getitem le ''Crop'') (\<lambda>ce.
                Inr [(''Soil'', classes se), (''Crop'', classes ce)]))))"

subsection \<open>Responses\<close>

text \<open>
  A handler answers with the result of \<^verbatim>\<open>jsonify\<close> on a dictionary or with a rendered
  template, which is kept as the name of the template and its arguments, and with a
  status code.
\<close>

datatype template_arg = TStr string | TList "string list"

datatype 'f body =
    Json "(string \<times> 'f json) list"
  | Page string "(string \<times> template_arg) list"

record 'f response =
  body :: "'f body"
  status :: nat

definition json_error :: "string \<Rightarrow> nat \<Rightarrow> 'f response" where
  "json_error msg code = \<lparr>body = Json [(''error'', JStr msg)], status = code\<rparr>"

subsection \<open>Route handlers\<close>

definition home :: "'f response" where
  "home = \<lparr>body = Page ''home.html'' [], status = 200\<rparr>"

definition recommend_form :: "'f globals \<Rightarrow> exn + 'f response" where
  "recommend_form g =
     (if model g = None \<or> label_encoders g = None then
        Inr \<lparr>body = Page ''error.html''
                [(''message'', TStr
                  ''Application assets (model/encoders) failed to load. Please check server logs.'')],
             status = 500\<rparr>
      else
        bindE (get_categorical_options g) (\<lambda>options.
        bindE (getitem options ''Soil'') (\<lambda>soil_options.
        bindE (getitem options ''Crop'') (\<lambda>crop_options.
        Inr \<lparr>body = Page ''recommend.html''
                [(''soil_options'', TList soil_options), (''crop_options'', TList crop_options)],
             status = 200\<rparr>))))"

text \<open>
  The body of the \<^verbatim>\<open>try\<close> block of \<^verbatim>\<open>predict\<close>, from the evaluation of
  \<^verbatim>\<open>request.json\<close> on: \<open>Inr\<close> is a response returned from inside the block,
  \<open>Inl\<close> an exception that reaches the \<^verbatim>\<open>except\<close> clauses.
\<close>

definition predict_try ::
  "'f runtime \<Rightarrow> 'f classifier \<Rightarrow> encoders \<Rightarrow> exn + 'f payload \<Rightarrow> exn + 'f response" where
  "predict_try rt m le request_json =
     bindE request_json (\<lambda>data.
     bindE (bindE (payload_get data ''Temperature'') (py_float rt)) (\<lambda>temp.
     bindE (bindE (payload_get data ''Moisture'') (py_float rt)) (\<lambda>moisture.
     bindE (bindE (payload_get data ''PH'') (py_float rt)) (\<lambda>ph.
     bindE (bindE (payload_get data ''Nitrogen'') (py_float rt)) (\<lambda>nitrogen.
     bindE (bindE (payload_get data ''Phosphorous'') (py_float rt)) (\<lambda>phosphorous.
     bindE (bindE (payload_get data ''Potassium'') (py_float rt)) (\<lambda>potassium.
     bindE (bindE (payload_get data ''Carbon'') (py_float rt)) (\<lambda>carbon.
     bindE (payload_get data ''Soil'') (\<lambda>soil.
     bindE (payload_get data ''Crop'') (\<lambda>crop.
     bindE (bindE (getitem le ''Soil'') (\<lambda>enc. np_contains rt enc soil)) (\<lambda>soil_known.
     if \<not> soil_known then
       Inr (json_error (''Unknown Soil Type: '' @ quoted (py_str rt soil)) 400)
     else
     bindE (bindE (getitem le ''Crop'') (\<lambda>enc. np_contains rt enc crop)) (\<lambda>crop_known.
     if \<not> crop_known then
       Inr (json_error (''Unknown Crop Type: '' @ quoted (py_str rt crop)) 400)
     else
     bindE (bindE (getitem le ''Soil'') (\<lambda>enc. transform rt enc soil)) (\<lambda>soil_enc.
     bindE (bindE (getitem le ''Crop'') (\<lambda>enc. transform rt enc crop)) (\<lambda>crop_enc.
     let features = [temp, moisture, ph, nitrogen, phosphorous, potassium, carbon,
                     int_to_float rt soil_enc, int_to_float rt crop_enc] in
     bindE (m features) (\<lambda>encoded_output.
     Inr \<lparr>body = Json [(''success'', JBool True),
                       (''fertilizer_recommendation'', JStr (fertilizer_name encoded_output))],
          status = 200\<rparr>)))))))))))))))"

definition predict ::
  "'f runtime \<Rightarrow> 'f globals \<Rightarrow> exn + 'f payload \<Rightarrow> 'f response \<times> 'f globals" where
  "predict rt g request_json =
     (case model g of
        None \<Rightarrow> (json_error ''Model not loaded.'' 500, g)
      | Some m \<Rightarrow>
          (case label_encoders g of
             None \<Rightarrow> (json_error ''Model not loaded.'' 500, g)
           | Some le \<Rightarrow>
               (case predict_try rt m le request_json of
                  Inr r \<Rightarrow> (r, g)
                | Inl e \<Rightarrow>
                    (if kind e = TypeError \<or> kind e = ValueError then
                       (json_error
                          ''Invalid input. Ensure all numerical fields are filled correctly.'' 400,
                        g)
                     else
                       (json_error
                          (''Unexpected server error during prediction: '' @ message e) 500,
                        print (''Prediction error: '' @ message e) g)))))"

subsection \<open>Predicates used to state the properties\<close>


subsection \<open>Example data\<close>

text \<open>
  A small runtime over the reals, two encoders, a classifier that tells one feature
  vector from all others, and the request of the specification's scenario (with the
  pH sent as a string).
\<close>

definition example_runtime :: "real runtime" where
  "example_runtime =
     \<lparr>str_to_float = map_of [(''6.5'', 6.5), (''25'', 25)],
      int_to_float = real_of_int,
      float_repr = (\<lambda>x. ''float''),
      container_repr = (\<lambda>v. ''container''),
      container_lookup = (\<lambda>enc v. Inr None)\<rparr>"

definition example_soil_encoder :: LabelEncoder where
  "example_soil_encoder = \<lparr>classes = [''Clay'', ''Loamy'', ''Sandy''], dtype = FixedWidth\<rparr>"

definition example_crop_encoder :: LabelEncoder where
  "example_crop_encoder = \<lparr>classes = [''Maize'', ''Rice'', ''Wheat''], dtype = FixedWidth\<rparr>"

definition example_encoders :: encoders where
  "example_encoders = [(''Soil'', example_soil_encoder), (''Crop'', example_crop_encoder)]"

definition example_classifier :: "real classifier" where
  "example_classifier v =
     (if v = [25, 60, 6.5, 20, 15, 10, 1.2, 1, 2] then Inr 8 else Inr 11)"

definition example_globals :: "real globals" where
  "example_globals =
     \<lparr>model = Some example_classifier, label_encoders = Some example_encoders, stdout = []\<rparr>"

definition example_fields :: "(string \<times> real json) list" where
  "example_fields =
     [(''Temperature'', JInt 25), (''Moisture'', JInt 60), (''PH'', JStr ''6.5''),
      (''Nitrogen'', JInt 20), (''Phosphorous'', JInt 15), (''Potassium'', JInt 10),
      (''Carbon'', JFloat 1.2)]"

definition example_request_with :: "(string \<times> real json) list \<Rightarrow> real payload" where
  "example_request_with categorical = Object (example_fields @ categorical)"

definition example_request :: "real payload" where
  "example_request = example_request_with [(''Soil'', JStr ''Loamy''), (''Crop'', JStr ''Wheat'')]"

text \<open>
  A file system in which both files exist, and unpicklers that accept the first
  and reject the second.
\<close>

definition example_filesystem :: filesystem where
  "example_filesystem path =
     (if path = MODEL_PATH then Inr ''tree''
      else if path = ENCODER_PATH then Inr ''truncated''
      else Inl (Exn FileNotFoundError (''[Errno 2] No such file or directory: '' @ quoted path)))"

definition example_load_model :: "string \<Rightarrow> exn + real classifier" where
  "example_load_model content =
     (if content = ''tree'' then Inr example_classifier
      else Inl (Exn OtherException ''invalid load key''))"

definition example_load_encoders :: "string \<Rightarrow> exn + encoders" where
  "example_load_encoders content =
     (if content = ''encoders'' then Inr example_encoders
      else Inl (Exn OtherException ''pickle data was truncated''))"

section \<open>Properties\<close>

subsection \<open>Auxiliary facts\<close>

lemma bindE_Inl [simp]: "bindE (Inl e) f = Inl e"
  by (simp add: bindE_def)

lemma bindE_Inr [simp]: "bindE (Inr v) f = f v"
  by (simp add: bindE_def)

lemma index_of_Some_mem: "index_of s cs = Some i \<Longrightarrow> s \<in> set cs"
  by (induction cs arbitrary: i) (auto split: if_splits)

lemma index_of_Some_nth: "index_of s cs = Some i \<Longrightarrow> i < length cs \<and> cs ! i = s"
  by (induction cs arbitrary: i) (auto split: if_splits)

text \<open>A value that \<^verbatim>\<open>transform\<close> encodes is one that the membership test accepts.\<close>

lemma transform_Inr_contains:
  "transform rt enc v = Inr c \<Longrightarrow> np_contains rt enc v = Inr True"
  by (cases v) (auto split: option.splits sum.splits dest: index_of_Some_mem)

text \<open>The code of a string is the position of the class that it equals.\<close>

lemma transform_code:
  assumes "transform rt enc (JStr s) = Inr c"
  shows "0 \<le> c \<and> nat c < length (classes enc) \<and>
         np_str enc (classes enc ! nat c) = np_str enc s"
  using assms by (auto split: option.splits dest!: index_of_Some_nth)

text \<open>On a fixed-width array a trailing NUL makes no difference.\<close>

lemma rstrip_nul_snoc: "rstrip_nul (s @ [CHR 0x00]) = rstrip_nul s"
  by (simp add: rstrip_nul_def)

lemma np_contains_nul_padded:
  assumes "dtype enc = FixedWidth"
  shows "np_contains rt enc (JStr (s @ [CHR 0x00])) = np_contains rt enc (JStr s)"
    and "transform rt enc (JStr (s @ [CHR 0x00])) = transform rt enc (JStr s)"
  using assms by (simp_all add: np_str_def rstrip_nul_snoc)

text \<open>\<^verbatim>\<open>str(n)\<close> is a decimal numeral of \<open>n\<close>.\<close>

lemma nat_str_value:
  "foldl (\<lambda>a c. 10 * a + (of_char c - 48)) 0 (nat_str n) = n"
proof (induction n rule: nat_str.induct)
  case (1 n)
  show ?case
  proof (cases "n < 10")
    case True
    then show ?thesis by (subst nat_str.simps) simp
  next
    case False
    have "n mod 10 < 10" by simp
    then have "of_char (char_of (48 + n mod 10) :: char) = 48 + n mod 10"
      by (simp add: of_char_of [where ?'a = nat])
    with False "1.IH" show ?thesis by (subst nat_str.simps) simp
  qed
qed


lemma getitem_Some: "map_of d k = Some v \<Longrightarrow> getitem d k = Inr v"
  by (simp add: getitem_def)

text \<open>
  When the seven coercions succeed and both categorical values have a code, the
  \<^verbatim>\<open>try\<close> block is the classifier applied to one row, followed by the name lookup.
\<close>

lemma predict_try_classifies:
  assumes enc: "map_of le ''Soil'' = Some se" "map_of le ''Crop'' = Some ce"
    and num: "bindE (payload_get data ''Temperature'') (py_float rt) = Inr temp"
      "bindE (payload_get data ''Moisture'') (py_float rt) = Inr moisture"
      "bindE (payload_get data ''PH'') (py_float rt) = Inr ph"
      "bindE (payload_get data ''Nitrogen'') (py_float rt) = Inr nitrogen"
      "bindE (payload_get data ''Phosphorous'') (py_float rt) = Inr phosphorous"
      "bindE (payload_get data ''Potassium'') (py_float rt) = Inr potassium"
      "bindE (payload_get data ''Carbon'') (py_float rt) = Inr carbon"
    and cat: "payload_get data ''Soil'' = Inr soil" "payload_get data ''Crop'' = Inr crop"
    and code: "transform rt se soil = Inr soil_code" "transform rt ce crop = Inr crop_code"
  shows "predict_try rt m le (Inr data) =
     bindE (m [temp, moisture, ph, nitrogen, phosphorous, potassium, carbon,
               int_to_float rt soil_code, int_to_float rt crop_code])
       (\<lambda>l. Inr \<lparr>body = Json [(''success'', JBool True),
                   (''fertilizer_recommendation'', JStr (fertilizer_name l))],
                 status = 200\<rparr>)"
proof -
  have "np_contains rt se soil = Inr True" "np_contains rt ce crop = Inr True"
    using code by (auto dest: transform_Inr_contains)
  then show ?thesis
    unfolding predict_try_def
    by (simp add: num cat code getitem_Some [OF enc(1)] getitem_Some [OF enc(2)])
qed

text \<open>
  What \<^verbatim>\<open>float\<close> raises: \<^verbatim>\<open>TypeError\<close> on \<^verbatim>\<open>None\<close>, a list or a dictionary,
  \<^verbatim>\<open>ValueError\<close> on a string that is not a number, \<^verbatim>\<open>OverflowError\<close> on an integer
  that is too large.
\<close>

lemma py_float_raises:
  assumes "py_float rt v = Inl e"
  shows "(kind e = TypeError \<and> (v = JNull \<or> (\<exists>xs. v = JArr xs) \<or> (\<exists>kvs. v = JObj kvs))) \<or>
         (\<exists>s. v = JStr s \<and> str_to_float rt s = None \<and> kind e = ValueError) \<or>
         (\<exists>n. v = JInt n \<and> float_overflows n \<and> kind e = OverflowError)"
  using assms by (cases v) (auto split: if_splits option.splits)

text \<open>
  The coercions run in the order of the source, and the first one that raises ends
  the \<^verbatim>\<open>try\<close> block with its exception, whatever the later fields hold.
\<close>

lemma predict_try_first_failure:
  "bindE (payload_get data ''Temperature'') (py_float rt) = Inl e \<Longrightarrow>
   predict_try rt m le (Inr data) = Inl e"
  "bindE (payload_get data ''Temperature'') (py_float rt) = Inr temp \<Longrightarrow>
   bindE (payload_get data ''Moisture'') (py_float rt) = Inl e \<Longrightarrow>
   predict_try rt m le (Inr data) = Inl e"
  "bindE (payload_get data ''Temperature'') (py_float rt) = Inr temp \<Longrightarrow>
   bindE (payload_get data ''Moisture'') (py_float rt) = Inr moisture \<Longrightarrow>
   bindE (payload_get data ''PH'') (py_float rt) = Inl e \<Longrightarrow>
   predict_try rt m le (Inr data) = Inl e"
  "bindE (payload_get data ''Temperature'') (py_float rt) = Inr temp \<Longrightarrow>
   bindE (payload_get data ''Moisture'') (py_float rt) = Inr moisture \<Longrightarrow>
   bindE (payload_get data ''PH'') (py_float rt) = Inr ph \<Longrightarrow>
   bindE (payload_get data ''Nitrogen'') (py_float rt) = Inl e \<Longrightarrow>
   predict_try rt m le (Inr data) = Inl e"
  "bindE (payload_get data ''Temperature'') (py_float rt) = Inr temp \<Longrightarrow>
   bindE (payload_get data ''Moisture'') (py_float rt) = Inr moisture \<Longrightarrow>
   bindE (payload_get data ''PH'') (py_float rt) = Inr ph \<Longrightarrow>
   bindE (payload_get data ''Nitrogen'') (py_float rt) = Inr nitrogen \<Longrightarrow>
   bindE (payload_get data ''Phosphorous'') (py_float rt) = Inl e \<Longrightarrow>
   predict_try rt m le (Inr data) = Inl e"
  "bindE (payload_get data ''Temperature'') (py_float rt) = Inr temp \<Longrightarrow>
   bindE (payload_get data ''Moisture'') (py_float rt) = Inr moisture \<Longrightarrow>
   bindE (payload_get data ''PH'') (py_float rt) = Inr ph \<Longrightarrow>
   bindE (payload_get data ''Nitrogen'') (py_float rt) = Inr nitrogen \<Longrightarrow>
   bindE (payload_get data ''Phosphorous'') (py_float rt) = Inr phosphorous \<Longrightarrow>
   bindE (payload_get data ''Potassium'') (py_float rt) = Inl e \<Longrightarrow>
   predict_try rt m le (Inr data) = Inl e"
  "bindE (payload_get data ''Temperature'') (py_float rt) = Inr temp \<Longrightarrow>
   bindE (payload_get data ''Moisture'') (py_float rt) = Inr moisture \<Longrightarrow>
   bindE (payload_get data ''PH'') (py_float rt) = Inr ph \<Longrightarrow>
   bindE (payload_get data ''Nitrogen'') (py_float rt) = Inr nitrogen \<Longrightarrow>
   bindE (payload_get data ''Phosphorous'') (py_float rt) = Inr phosphorous \<Longrightarrow>
   bindE (payload_get data ''Potassium'') (py_float rt) = Inr potassium \<Longrightarrow>
   bindE (payload_get data ''Carbon'') (py_float rt) = Inl e \<Longrightarrow>
   predict_try rt m le (Inr data) = Inl e"
  unfolding predict_try_def by simp_all

text \<open>A \<^verbatim>\<open>TypeError\<close> or \<^verbatim>\<open>ValueError\<close> becomes the one invalid-input response.\<close>

lemma predict_invalid_input:
  assumes "model g = Some m" "label_encoders g = Some le"
    and "predict_try rt m le req = Inl e"
    and "kind e = TypeError \<or> kind e = ValueError"
  shows "predict rt g req =
     (\<lparr>body = Json [(''error'',
          JStr ''Invalid input. Ensure all numerical fields are filled correctly.'')],
        status = 400\<rparr>, g)"
  using assms by (auto simp: predict_def json_error_def)

text \<open>Both \<^verbatim>\<open>except\<close> clauses of the loader clear the two slots.\<close>

lemma load_failed_slots:
  "model (load_failed e g) = None \<and> label_encoders (load_failed e g) = None"
  by (simp add: load_failed_def print_def)

lemma load_assets_slots_agree:
  "(model (load_assets fs load_model load_encoders g) = None) =
   (label_encoders (load_assets fs load_model load_encoders g) = None)"
  by (auto simp: load_assets_def load_failed_slots Let_def print_def
      split: sum.splits option.splits)

text \<open>The name table, entry by entry, and the default outside of it.\<close>

lemma fertilizer_name_inside:
  assumes "0 \<le> l" "l \<le> 9"
  shows "map_of FERTILIZER_MAPPING l = Some (fertilizer_name l)"
proof -
  from assms have "l = 0 \<or> l = 1 \<or> l = 2 \<or> l = 3 \<or> l = 4 \<or> l = 5 \<or> l = 6 \<or> l = 7
      \<or> l = 8 \<or> l = 9"
    by arith
  then show ?thesis
    by (auto simp: fertilizer_name_def FERTILIZER_MAPPING_def)
qed

lemma fertilizer_name_outside:
  "l < 0 \<or> 9 < l \<Longrightarrow> fertilizer_name l = ''Unknown Fertilizer''"
  by (auto simp: fertilizer_name_def FERTILIZER_MAPPING_def)

text \<open>
  Every response that the \<^verbatim>\<open>try\<close> block returns is the success object with status
  200 or an unknown-category error with status 400.
\<close>

lemma predict_try_response:
  assumes "predict_try rt m le req = Inr r"
  shows "(\<exists>l. r = \<lparr>body = Json [(''success'', JBool True),
                            (''fertilizer_recommendation'', JStr (fertilizer_name l))],
                  status = 200\<rparr>) \<or>
         (\<exists>v. r = json_error (''Unknown Soil Type: '' @ quoted v) 400) \<or>
         (\<exists>v. r = json_error (''Unknown Crop Type: '' @ quoted v) 400)"
  using assms unfolding predict_try_def
  by (auto simp: bindE_def split: sum.splits if_splits)


text \<open>
  \<^verbatim>\<open>predict\<close> reads the two asset slots only and writes neither; what it does
  to the state is to print one line, in the last \<^verbatim>\<open>except\<close> clause.
\<close>

lemma predict_response_assets:
  assumes "model g' = model g" "label_encoders g' = label_encoders g"
  shows "fst (predict rt g' req) = fst (predict rt g req)"
  using assms by (simp add: predict_def split: option.splits sum.splits)

lemma predict_keeps_assets:
  "model (snd (predict rt g req)) = model g \<and>
   label_encoders (snd (predict rt g req)) = label_encoders g"
  by (simp add: predict_def print_def split: option.splits sum.splits)

lemma predict_state_unchanged:
  assumes "model g = None \<or> label_encoders g = None \<or> status (fst (predict rt g req)) \<noteq> 500"
  shows "snd (predict rt g req) = g"
  using assms
  by (auto simp: predict_def json_error_def split: option.splits sum.splits)

lemma predict_state_on_raise:
  assumes "model g = Some m" "label_encoders g = Some le"
    and "predict_try rt m le req = Inl e"
    and "kind e \<noteq> TypeError" "kind e \<noteq> ValueError"
  shows "predict rt g req =
     (json_error (''Unexpected server error during prediction: '' @ message e) 500,
      print (''Prediction error: '' @ message e) g)"
  using assms by (simp add: predict_def)

lemma predict_state_logged:
  assumes "model g = Some m" "label_encoders g = Some le"
    and "status (fst (predict rt g req)) = 500"
  shows "\<exists>e. predict_try rt m le req = Inl e \<and> kind e \<noteq> TypeError \<and> kind e \<noteq> ValueError \<and>
           fst (predict rt g req) =
             json_error (''Unexpected server error during prediction: '' @ message e) 500 \<and>
           snd (predict rt g req) = print (''Prediction error: '' @ message e) g"
proof (cases "predict_try rt m le req")
  case (Inl e)
  with assms show ?thesis
    by (auto simp: predict_def json_error_def split: if_splits)
next
  case (Inr r)
  from predict_try_response [OF Inr] have "status r \<noteq> 500"
    by (auto simp: json_error_def)
  with assms Inr show ?thesis
    by (simp add: predict_def)
qed

text \<open>The example data, evaluated once.\<close>

lemma example_assets:
  "model example_globals = Some example_classifier"
  "label_encoders example_globals = Some example_encoders"
  "map_of example_encoders ''Soil'' = Some example_soil_encoder"
  "map_of example_encoders ''Crop'' = Some example_crop_encoder"
  by (simp_all add: example_globals_def example_encoders_def)

lemma example_numbers:
  "bindE (payload_get (example_request_with c) ''Temperature'') (py_float example_runtime) = Inr 25"
  "bindE (payload_get (example_request_with c) ''Moisture'') (py_float example_runtime) = Inr 60"
  "bindE (payload_get (example_request_with c) ''PH'') (py_float example_runtime) = Inr 6.5"
  "bindE (payload_get (example_request_with c) ''Nitrogen'') (py_float example_runtime) = Inr 20"
  "bindE (payload_get (example_request_with c) ''Phosphorous'') (py_float example_runtime) = Inr 15"
  "bindE (payload_get (example_request_with c) ''Potassium'') (py_float example_runtime) = Inr 10"
  "bindE (payload_get (example_request_with c) ''Carbon'') (py_float example_runtime) = Inr 1.2"
  by (simp_all add: example_request_with_def example_fields_def example_runtime_def
      float_overflows_def)

lemma example_categories:
  "payload_get (example_request_with [(''Soil'', x), (''Crop'', y)]) ''Soil'' = Inr x"
  "payload_get (example_request_with [(''Soil'', x), (''Crop'', y)]) ''Crop'' = Inr y"
  "payload_get (example_request_with [(''Crop'', y)]) ''Soil'' = Inr JNull"
  "payload_get (example_request_with [(''Crop'', y)]) ''Crop'' = Inr y"
  "payload_get (example_request_with [(''Soil'', x)]) ''Soil'' = Inr x"
  "payload_get (example_request_with [(''Soil'', x)]) ''Crop'' = Inr JNull"
  by (simp_all add: example_request_with_def example_fields_def)

lemma example_codes:
  "transform example_runtime example_soil_encoder (JStr ''Loamy'' :: real json) = Inr 1"
  "transform example_runtime example_crop_encoder (JStr ''Wheat'' :: real json) = Inr 2"
  by (simp_all add: example_soil_encoder_def example_crop_encoder_def np_str_def
      rstrip_nul_def)

lemma example_features:
  "[25, 60, 6.5, 20, 15, 10, 1.2, 1, 2] =
     [25, 60, 6.5, 20, 15, 10, 1.2,
      int_to_float example_runtime 1, int_to_float example_runtime 2]"
  by (simp add: example_runtime_def)

subsection \<open>The feature vector\<close>

text \<open>
  C1. With both assets present, when the seven numeric fields coerce to
  \<open>temp\<close>, \<open>moisture\<close>, \<open>ph\<close>, \<open>nitrogen\<close>, \<open>phosphorous\<close>, \<open>potassium\<close> and
  \<open>carbon\<close> and the encoders give the codes \<open>soil_code\<close> and \<open>crop_code\<close> for the
  two categorical values, the classifier is called on the nine-element row
  \<open>[temp, moisture, ph, nitrogen, phosphorous, potassium, carbon, soil_code, crop_code]\<close>
  (the codes as floats): the outcome of the request is the outcome of the classifier
  on that row and on nothing else, whatever the classifier is.
\<close>

theorem predict_feature_vector:
  assumes "model g = Some m" "label_encoders g = Some le"
    and "map_of le ''Soil'' = Some se" "map_of le ''Crop'' = Some ce"
    and "bindE (payload_get data ''Temperature'') (py_float rt) = Inr temp"
      "bindE (payload_get data ''Moisture'') (py_float rt) = Inr moisture"
      "bindE (payload_get data ''PH'') (py_float rt) = Inr ph"
      "bindE (payload_get data ''Nitrogen'') (py_float rt) = Inr nitrogen"
      "bindE (payload_get data ''Phosphorous'') (py_float rt) = Inr phosphorous"
      "bindE (payload_get data ''Potassium'') (py_float rt) = Inr potassium"
      "bindE (payload_get data ''Carbon'') (py_float rt) = Inr carbon"
    and "payload_get data ''Soil'' = Inr soil" "payload_get data ''Crop'' = Inr crop"
    and "transform rt se soil = Inr soil_code" "transform rt ce crop = Inr crop_code"
    and "features = [temp, moisture, ph, nitrogen, phosphorous, potassium, carbon,
                     int_to_float rt soil_code, int_to_float rt crop_code]"
  shows "length features = 9 \<and>
     predict_try rt m le (Inr data) =
       bindE (m features)
         (\<lambda>l. Inr \<lparr>body = Json [(''success'', JBool True),
                     (''fertilizer_recommendation'', JStr (fertilizer_name l))],
                   status = 200\<rparr>) \<and>
     (\<forall>l. m features = Inr l \<longrightarrow>
        predict rt g (Inr data) =
          (\<lparr>body = Json [(''success'', JBool True),
                          (''fertilizer_recommendation'', JStr (fertilizer_name l))],
             status = 200\<rparr>, g))"
proof -
  have eq: "predict_try rt m le (Inr data) =
       bindE (m features)
         (\<lambda>l. Inr \<lparr>body = Json [(''success'', JBool True),
                     (''fertilizer_recommendation'', JStr (fertilizer_name l))],
                   status = 200\<rparr>)"
    unfolding assms(16) by (rule predict_try_classifies [OF assms(3-15)])
  show ?thesis
    using eq by (simp add: predict_def assms(1,2,16))
qed

theorem predict_feature_vector_witness:
  "model example_globals = Some example_classifier \<and>
   label_encoders example_globals = Some example_encoders \<and>
   map_of example_encoders ''Soil'' = Some example_soil_encoder \<and>
   map_of example_encoders ''Crop'' = Some example_crop_encoder \<and>
   bindE (payload_get example_request ''Temperature'') (py_float example_runtime) = Inr 25 \<and>
   bindE (payload_get example_request ''Moisture'') (py_float example_runtime) = Inr 60 \<and>
   bindE (payload_get example_request ''PH'') (py_float example_runtime) = Inr 6.5 \<and>
   bindE (payload_get example_request ''Nitrogen'') (py_float example_runtime) = Inr 20 \<and>
   bindE (payload_get example_request ''Phosphorous'') (py_float example_runtime) = Inr 15 \<and>
   bindE (payload_get example_request ''Potassium'') (py_float example_runtime) = Inr 10 \<and>
   bindE (payload_get example_request ''Carbon'') (py_float example_runtime) = Inr 1.2 \<and>
   payload_get example_request ''Soil'' = Inr (JStr ''Loamy'') \<and>
   payload_get example_request ''Crop'' = Inr (JStr ''Wheat'') \<and>
   transform example_runtime example_soil_encoder (JStr ''Loamy'' :: real json) = Inr 1 \<and>
   transform example_runtime example_crop_encoder (JStr ''Wheat'' :: real json) = Inr 2 \<and>
   example_classifier [25, 60, 6.5, 20, 15, 10, 1.2, 1, 2] = Inr 8 \<and>
   predict example_runtime example_globals (Inr example_request) =
     (\<lparr>body = Json [(''success'', JBool True), (''fertilizer_recommendation'', JStr ''Urea'')],
        status = 200\<rparr>, example_globals)"
proof -
  have l: "example_classifier [25, 60, 6.5, 20, 15, 10, 1.2, 1, 2] = Inr 8"
    by (simp add: example_classifier_def)
  have u: "fertilizer_name 8 = ''Urea''"
    by (simp add: fertilizer_name_def FERTILIZER_MAPPING_def)
  from predict_feature_vector
    [OF example_assets example_numbers example_categories(1,2) example_codes example_features]
    l u
  have "predict example_runtime example_globals (Inr example_request) =
     (\<lparr>body = Json [(''success'', JBool True), (''fertilizer_recommendation'', JStr ''Urea'')],
        status = 200\<rparr>, example_globals)"
    by (simp add: example_request_def)
  with example_assets example_codes l show ?thesis
    by (simp add: example_numbers example_categories example_request_def)
qed

subsection \<open>Loading is all or nothing\<close>

text \<open>
  C2. If loading fails, for whatever reason (opening the model file or the encoder
  file raises, or unpickling either content raises, the classifier having been
  loaded or not), then in the state that \<^verbatim>\<open>load_assets\<close> leaves both the classifier
  slot and the encoder slot are absent, whatever the state before the call was.
\<close>

theorem load_failure_clears_both_slots:
  assumes "(\<exists>e. fs MODEL_PATH = Inl e)
         \<or> (\<exists>content e. fs MODEL_PATH = Inr content \<and> load_model content = Inl e)
         \<or> (\<exists>e. fs ENCODER_PATH = Inl e)
         \<or> (\<exists>content e. fs ENCODER_PATH = Inr content \<and> load_encoders content = Inl e)"
  shows "model (load_assets fs load_model load_encoders g) = None \<and>
         label_encoders (load_assets fs load_model load_encoders g) = None"
  using assms
  by (auto simp: load_assets_def load_failed_slots Let_def split: sum.splits)

theorem load_failure_clears_both_slots_witness:
  "bindE (example_filesystem MODEL_PATH) example_load_model = Inr example_classifier \<and>
   example_filesystem ENCODER_PATH = Inr ''truncated'' \<and>
   example_load_encoders ''truncated'' = Inl (Exn OtherException ''pickle data was truncated'') \<and>
   model (load_assets example_filesystem example_load_model example_load_encoders
            example_globals) = None \<and>
   label_encoders (load_assets example_filesystem example_load_model example_load_encoders
            example_globals) = None"
proof -
  have ok: "bindE (example_filesystem MODEL_PATH) example_load_model = Inr example_classifier"
    by (simp add: example_filesystem_def example_load_model_def)
  have bad: "example_filesystem ENCODER_PATH = Inr ''truncated''"
    "example_load_encoders ''truncated'' = Inl (Exn OtherException ''pickle data was truncated'')"
    by (simp_all add: example_filesystem_def example_load_encoders_def MODEL_PATH_def
        ENCODER_PATH_def)
  then have "(\<exists>e. example_filesystem MODEL_PATH = Inl e)
         \<or> (\<exists>content e. example_filesystem MODEL_PATH = Inr content \<and>
                example_load_model content = Inl e)
         \<or> (\<exists>e. example_filesystem ENCODER_PATH = Inl e)
         \<or> (\<exists>content e. example_filesystem ENCODER_PATH = Inr content \<and>
                example_load_encoders content = Inl e)"
    by blast
  from load_failure_clears_both_slots [OF this, of example_globals] ok bad show ?thesis
    by simp
qed

subsection \<open>Absent assets\<close>

text \<open>
  C3. When the classifier or the encoder set is absent, \<^verbatim>\<open>/recommend\<close> answers with
  the error page and status 500 and \<^verbatim>\<open>/predict\<close> answers with the JSON error
  \<^verbatim>\<open>Model not loaded.\<close> and status 500, leaving the state as it was. Both answers are
  fixed: they depend neither on the request nor on what the other slot holds, so
  neither asset is read.
\<close>

theorem absent_assets_answer_500:
  assumes "model g = None \<or> label_encoders g = None"
  shows "recommend_form g =
           Inr \<lparr>body = Page ''error.html''
                  [(''message'', TStr
                    ''Application assets (model/encoders) failed to load. Please check server logs.'')],
                status = 500\<rparr> \<and>
         predict rt g req =
           (\<lparr>body = Json [(''error'', JStr ''Model not loaded.'')], status = 500\<rparr>, g)"
  using assms
  by (auto simp: recommend_form_def predict_def json_error_def split: option.splits)

theorem absent_assets_answer_500_witness:
  "(model (example_globals\<lparr>model := None\<rparr>) = None \<or>
    label_encoders (example_globals\<lparr>model := None\<rparr>) = None) \<and>
   label_encoders (example_globals\<lparr>model := None\<rparr>) = Some example_encoders \<and>
   recommend_form (example_globals\<lparr>model := None\<rparr>) =
     Inr \<lparr>body = Page ''error.html''
            [(''message'', TStr
              ''Application assets (model/encoders) failed to load. Please check server logs.'')],
          status = 500\<rparr> \<and>
   predict example_runtime (example_globals\<lparr>model := None\<rparr>) (Inr example_request) =
     (\<lparr>body = Json [(''error'', JStr ''Model not loaded.'')], status = 500\<rparr>,
      example_globals\<lparr>model := None\<rparr>)"
proof -
  have h: "model (example_globals\<lparr>model := None\<rparr>) = None \<or>
    label_encoders (example_globals\<lparr>model := None\<rparr>) = None"
    by simp
  have "label_encoders (example_globals\<lparr>model := None\<rparr>) = Some example_encoders"
    by (simp add: example_globals_def)
  with h absent_assets_answer_500 [OF h, of example_runtime "Inr example_request"] show ?thesis
    by simp
qed

subsection \<open>The category catalog\<close>

text \<open>
  C7. When the encoder set is present and holds an encoder for \<^verbatim>\<open>Soil\<close> and one for
  \<^verbatim>\<open>Crop\<close>, the options are exactly the class lists of the two encoders, in the
  encoders' order. When the encoder set is absent the options are two empty lists
  and no exception is raised; this is the case in every state that \<^verbatim>\<open>load_assets\<close>
  leaves with the classifier absent.
\<close>

theorem options_are_encoder_classes:
  "(label_encoders g = Some le \<and> map_of le ''Soil'' = Some se \<and> map_of le ''Crop'' = Some ce
      \<longrightarrow> get_categorical_options g = Inr [(''Soil'', classes se), (''Crop'', classes ce)]) \<and>
   (label_encoders g = None
      \<longrightarrow> get_categorical_options g = Inr [(''Soil'', []), (''Crop'', [])]) \<and>
   (model (load_assets fs load_model load_encoders g) = None
      \<longrightarrow> get_categorical_options (load_assets fs load_model load_encoders g) =
            Inr [(''Soil'', []), (''Crop'', [])])"
proof -
  have "label_encoders (load_assets fs load_model load_encoders g) = None"
    if "model (load_assets fs load_model load_encoders g) = None"
    using that load_assets_slots_agree [of fs load_model load_encoders g] by simp
  then show ?thesis
    by (auto simp: get_categorical_options_def getitem_def)
qed

theorem options_are_encoder_classes_witness:
  "label_encoders example_globals = Some example_encoders \<and>
   map_of example_encoders ''Soil'' = Some example_soil_encoder \<and>
   map_of example_encoders ''Crop'' = Some example_crop_encoder \<and>
   get_categorical_options example_globals =
     Inr [(''Soil'', [''Clay'', ''Loamy'', ''Sandy'']), (''Crop'', [''Maize'', ''Rice'', ''Wheat''])] \<and>
   label_encoders (initial_globals :: real globals) = None \<and>
   get_categorical_options (initial_globals :: real globals) =
     Inr [(''Soil'', []), (''Crop'', [])] \<and>
   model (load_assets example_filesystem example_load_model example_load_encoders
            example_globals) = None \<and>
   get_categorical_options
     (load_assets example_filesystem example_load_model example_load_encoders example_globals) =
     Inr [(''Soil'', []), (''Crop'', [])]"
proof -
  have i: "label_encoders (initial_globals :: real globals) = None"
    by (simp add: initial_globals_def)
  have f: "model (load_assets example_filesystem example_load_model example_load_encoders
            example_globals) = None"
    by (simp add: load_assets_def example_filesystem_def example_load_model_def
        example_load_encoders_def MODEL_PATH_def ENCODER_PATH_def load_failed_slots)
  from options_are_encoder_classes
    [of example_globals example_encoders example_soil_encoder example_crop_encoder
      example_filesystem example_load_model example_load_encoders]
    options_are_encoder_classes [of "initial_globals :: real globals"]
    example_assets i f
  show ?thesis
    by (simp add: example_soil_encoder_def example_crop_encoder_def)
qed

subsection \<open>Numeric fields that do not coerce\<close>

text \<open>
  C5. A request whose \<^verbatim>\<open>Temperature\<close> is the integer \<open>10 ^ 400\<close> and whose \<^verbatim>\<open>Carbon\<close>
  is missing: the first coercion raises \<^verbatim>\<open>OverflowError\<close>, which the clause for
  \<^verbatim>\<open>TypeError\<close> and \<^verbatim>\<open>ValueError\<close> does not catch, and the answer is the
  unexpected-error response with status 500, not the invalid-input response with
  status 400. This holds for every runtime, classifier and encoder set.
\<close>

theorem overflowing_integer_answers_500:
  "predict rt \<lparr>model = Some m, label_encoders = Some le, stdout = out\<rparr>
     (Inr (Object [(''Temperature'', JInt (10 ^ 400)), (''Moisture'', JInt 60), (''PH'', JInt 7),
                   (''Nitrogen'', JInt 20), (''Phosphorous'', JInt 15), (''Potassium'', JInt 10),
                   (''Soil'', JStr ''Loamy''), (''Crop'', JStr ''Wheat'')])) =
   (\<lparr>body = Json [(''error'', JStr
        ''Unexpected server error during prediction: int too large to convert to float'')],
      status = 500\<rparr>,
    \<lparr>model = Some m, label_encoders = Some le,
      stdout = out @ [''Prediction error: int too large to convert to float'']\<rparr>)"
  by (simp add: predict_def predict_try_def float_overflows_def json_error_def print_def)

subsection \<open>The name lookup\<close>

text \<open>
  C6. When the classifier returns the label \<open>l\<close> for the assembled row, the answer
  has status 200 and recommends \<open>fertilizer_name l\<close>, which is the entry of the
  name table for a label from 0 to 9 and \<^verbatim>\<open>Unknown Fertilizer\<close> for every other
  label.
\<close>

theorem label_outside_table_falls_back:
  assumes "model g = Some m" "label_encoders g = Some le"
    and "map_of le ''Soil'' = Some se" "map_of le ''Crop'' = Some ce"
    and "bindE (payload_get data ''Temperature'') (py_float rt) = Inr temp"
      "bindE (payload_get data ''Moisture'') (py_float rt) = Inr moisture"
      "bindE (payload_get data ''PH'') (py_float rt) = Inr ph"
      "bindE (payload_get data ''Nitrogen'') (py_float rt) = Inr nitrogen"
      "bindE (payload_get data ''Phosphorous'') (py_float rt) = Inr phosphorous"
      "bindE (payload_get data ''Potassium'') (py_float rt) = Inr potassium"
      "bindE (payload_get data ''Carbon'') (py_float rt) = Inr carbon"
    and "payload_get data ''Soil'' = Inr soil" "payload_get data ''Crop'' = Inr crop"
    and "transform rt se soil = Inr soil_code" "transform rt ce crop = Inr crop_code"
    and "m [temp, moisture, ph, nitrogen, phosphorous, potassium, carbon,
            int_to_float rt soil_code, int_to_float rt crop_code] = Inr l"
  shows "predict rt g (Inr data) =
           (\<lparr>body = Json [(''success'', JBool True),
                           (''fertilizer_recommendation'', JStr (fertilizer_name l))],
              status = 200\<rparr>, g) \<and>
         (0 \<le> l \<and> l \<le> 9 \<longrightarrow> map_of FERTILIZER_MAPPING l = Some (fertilizer_name l)) \<and>
         (l < 0 \<or> 9 < l \<longrightarrow> fertilizer_name l = ''Unknown Fertilizer'')"
proof -
  have "predict_try rt m le (Inr data) =
      Inr \<lparr>body = Json [(''success'', JBool True),
                        (''fertilizer_recommendation'', JStr (fertilizer_name l))],
           status = 200\<rparr>"
    by (simp add: predict_try_classifies [OF assms(3-15)] assms(16))
  then show ?thesis
    by (simp add: predict_def assms(1,2) fertilizer_name_inside fertilizer_name_outside)
qed

theorem label_outside_table_falls_back_witness:
  "model example_globals = Some example_classifier \<and>
   label_encoders example_globals = Some example_encoders \<and>
   map_of example_encoders ''Soil'' = Some example_soil_encoder \<and>
   map_of example_encoders ''Crop'' = Some example_crop_encoder \<and>
   bindE (payload_get (example_request_with [(''Soil'', JStr ''Clay''), (''Crop'', JStr ''Wheat'')]) ''Temperature'') (py_float example_runtime) = Inr 25 \<and>
   bindE (payload_get (example_request_with [(''Soil'', JStr ''Clay''), (''Crop'', JStr ''Wheat'')]) ''Moisture'') (py_float example_runtime) = Inr 60 \<and>
   bindE (payload_get (example_request_with [(''Soil'', JStr ''Clay''), (''Crop'', JStr ''Wheat'')]) ''PH'') (py_float example_runtime) = Inr 6.5 \<and>
   bindE (payload_get (example_request_with [(''Soil'', JStr ''Clay''), (''Crop'', JStr ''Wheat'')]) ''Nitrogen'') (py_float example_runtime) = Inr 20 \<and>
   bindE (payload_get (example_request_with [(''Soil'', JStr ''Clay''), (''Crop'', JStr ''Wheat'')]) ''Phosphorous'') (py_float example_runtime) = Inr 15 \<and>
   bindE (payload_get (example_request_with [(''Soil'', JStr ''Clay''), (''Crop'', JStr ''Wheat'')]) ''Potassium'') (py_float example_runtime) = Inr 10 \<and>
   bindE (payload_get (example_request_with [(''Soil'', JStr ''Clay''), (''Crop'', JStr ''Wheat'')]) ''Carbon'') (py_float example_runtime) = Inr 1.2 \<and>
   transform example_runtime example_soil_encoder (JStr ''Clay'' :: real json) = Inr 0 \<and>
   transform example_runtime example_crop_encoder (JStr ''Wheat'' :: real json) = Inr 2 \<and>
   example_classifier [25, 60, 6.5, 20, 15, 10, 1.2, 0, 2] = Inr 11 \<and>
   map_of FERTILIZER_MAPPING 11 = None \<and>
   predict example_runtime example_globals
       (Inr (example_request_with [(''Soil'', JStr ''Clay''), (''Crop'', JStr ''Wheat'')])) =
     (\<lparr>body = Json [(''success'', JBool True),
                     (''fertilizer_recommendation'', JStr ''Unknown Fertilizer'')],
        status = 200\<rparr>, example_globals)"
proof -
  have t: "transform example_runtime example_soil_encoder (JStr ''Clay'' :: real json) = Inr 0"
    by (simp add: example_soil_encoder_def np_str_def rstrip_nul_def)
  have l: "example_classifier [25, 60, 6.5, 20, 15, 10, 1.2, 0, 2] = Inr 11"
    by (simp add: example_classifier_def)
  have r: "example_classifier [25, 60, 6.5, 20, 15, 10, 1.2,
      int_to_float example_runtime 0, int_to_float example_runtime 2] = Inr 11"
    by (simp add: example_classifier_def example_runtime_def)
  have n: "map_of FERTILIZER_MAPPING 11 = None"
    by (simp add: FERTILIZER_MAPPING_def)
  from label_outside_table_falls_back
      [OF example_assets example_numbers example_categories(1,2) t example_codes(2) r]
    t l n example_assets example_codes(2)
  show ?thesis
    by (simp add: example_numbers)
qed

subsection \<open>Unknown categories\<close>




subsection \<open>The shape of failure responses\<close>




subsection \<open>Two runs\<close>

text \<open>
  C9, as stated, fails: \<^verbatim>\<open>predict\<close> has a side effect beyond its call boundary. On a
  body that is a JSON list the \<^verbatim>\<open>try\<close> block raises \<^verbatim>\<open>AttributeError\<close>, and the
  last \<^verbatim>\<open>except\<close> clause prints a line before it answers: the state after the call
  is not the state before it.
\<close>

theorem predict_prints_on_unexpected_error:
  "stdout example_globals = [] \<and>
   stdout (snd (predict example_runtime example_globals (Inr (NonObject ''list'')))) =
     [''Prediction error: '' @ [CHR 0x27] @ ''list'' @ [CHR 0x27] @ '' object has no attribute '' @ [CHR 0x27] @ ''get'' @ [CHR 0x27]] \<and>
   snd (predict example_runtime example_globals (Inr (NonObject ''list''))) \<noteq> example_globals"
proof -
  have e: "snd (predict example_runtime example_globals (Inr (NonObject ''list''))) =
      print (''Prediction error: '' @ [CHR 0x27] @ ''list'' @ [CHR 0x27] @ '' object has no attribute '' @ [CHR 0x27] @ ''get'' @ [CHR 0x27]) example_globals"
    by (simp add: predict_def predict_try_def example_assets quoted_def)
  have i: "stdout example_globals = []"
    by (simp add: example_globals_def)
  have o: "stdout (snd (predict example_runtime example_globals (Inr (NonObject ''list'')))) =
     [''Prediction error: '' @ [CHR 0x27] @ ''list'' @ [CHR 0x27] @ '' object has no attribute '' @ [CHR 0x27] @ ''get'' @ [CHR 0x27]]"
    by (simp add: e i print_def)
  have "snd (predict example_runtime example_globals (Inr (NonObject ''list''))) \<noteq> example_globals"
  proof
    assume "snd (predict example_runtime example_globals (Inr (NonObject ''list''))) = example_globals"
    with o i show False by simp
  qed
  with i o show ?thesis by simp
qed

text \<open>
  C9, amended. The response of \<^verbatim>\<open>predict\<close> is a function of the two asset slots and
  of the request: two states that agree on the slots give the same response to the
  same request, and so does a second call on the state that a first call leaves. A
  call never changes the asset slots. Its one side effect is a log line: when both
  assets are present and the answer has status 500, the \<^verbatim>\<open>try\<close> block has raised an
  exception \<open>e\<close> that is neither a \<^verbatim>\<open>TypeError\<close> nor a \<^verbatim>\<open>ValueError\<close>, and the state
  after the call is the state before it with the line \<^verbatim>\<open>Prediction error: <e>\<close>
  printed; conversely every such exception is answered with status 500 and logged
  so. In every other case the state after the call is the state before it.
\<close>

theorem predict_twice_same_response:
  assumes "model g' = model g" "label_encoders g' = label_encoders g"
  shows "fst (predict rt g' req) = fst (predict rt g req) \<and>
         fst (predict rt (snd (predict rt g req)) req) = fst (predict rt g req) \<and>
         model (snd (predict rt g req)) = model g \<and>
         label_encoders (snd (predict rt g req)) = label_encoders g \<and>
         (model g = None \<or> label_encoders g = None \<or> status (fst (predict rt g req)) \<noteq> 500
            \<longrightarrow> snd (predict rt g req) = g) \<and>
         (\<forall>m le. model g = Some m \<and> label_encoders g = Some le \<and>
              status (fst (predict rt g req)) = 500 \<longrightarrow>
            (\<exists>e. predict_try rt m le req = Inl e \<and>
                 kind e \<noteq> TypeError \<and> kind e \<noteq> ValueError \<and>
                 snd (predict rt g req) = print (''Prediction error: '' @ message e) g)) \<and>
         (\<forall>m le e. model g = Some m \<and> label_encoders g = Some le \<and>
              predict_try rt m le req = Inl e \<and>
              kind e \<noteq> TypeError \<and> kind e \<noteq> ValueError \<longrightarrow>
            status (fst (predict rt g req)) = 500 \<and>
            snd (predict rt g req) = print (''Prediction error: '' @ message e) g)"
proof -
  have "status (fst (predict rt g req)) = 500 \<and>
        snd (predict rt g req) = print (''Prediction error: '' @ message e) g"
    if "model g = Some m" "label_encoders g = Some le" "predict_try rt m le req = Inl e"
      "kind e \<noteq> TypeError" "kind e \<noteq> ValueError"
    for m le e
    using predict_state_on_raise [OF that] by (simp add: json_error_def)
  moreover have "\<exists>e. predict_try rt m le req = Inl e \<and> kind e \<noteq> TypeError \<and> kind e \<noteq> ValueError \<and>
           snd (predict rt g req) = print (''Prediction error: '' @ message e) g"
    if "model g = Some m" "label_encoders g = Some le" "status (fst (predict rt g req)) = 500"
    for m le
    using predict_state_logged [OF that] by blast
  moreover have "snd (predict rt g req) = g"
    if "model g = None \<or> label_encoders g = None \<or> status (fst (predict rt g req)) \<noteq> 500"
    using that by (rule predict_state_unchanged)
  ultimately show ?thesis
    using predict_response_assets [OF assms] predict_keeps_assets [of rt g req]
      predict_response_assets [of "snd (predict rt g req)" g rt req]
    by simp
qed

theorem predict_twice_same_response_witness:
  "model (print ''started'' example_globals) = model example_globals \<and>
   label_encoders (print ''started'' example_globals) = label_encoders example_globals \<and>
   print ''started'' example_globals \<noteq> example_globals \<and>
   fst (predict example_runtime (print ''started'' example_globals) (Inr (NonObject ''list''))) =
     fst (predict example_runtime example_globals (Inr (NonObject ''list''))) \<and>
   fst (predict example_runtime
          (snd (predict example_runtime example_globals (Inr (NonObject ''list''))))
          (Inr (NonObject ''list''))) =
     fst (predict example_runtime example_globals (Inr (NonObject ''list''))) \<and>
   model example_globals = Some example_classifier \<and>
   label_encoders example_globals = Some example_encoders \<and>
   status (fst (predict example_runtime example_globals (Inr (NonObject ''list'')))) = 500 \<and>
   predict_try example_runtime example_classifier example_encoders (Inr (NonObject ''list'')) =
     Inl (Exn AttributeError
       ([CHR 0x27] @ ''list'' @ [CHR 0x27] @ '' object has no attribute '' @ [CHR 0x27] @ ''get'' @ [CHR 0x27])) \<and>
   snd (predict example_runtime example_globals (Inr (NonObject ''list''))) =
     print (''Prediction error: '' @ [CHR 0x27] @ ''list'' @ [CHR 0x27] @ '' object has no attribute '' @ [CHR 0x27] @ ''get'' @ [CHR 0x27])
       example_globals \<and>
   status (fst (predict example_runtime example_globals (Inr example_request))) \<noteq> 500 \<and>
   snd (predict example_runtime example_globals (Inr example_request)) = example_globals"
proof -
  have a: "model (print ''started'' example_globals) = model example_globals"
    "label_encoders (print ''started'' example_globals) = label_encoders example_globals"
    by (simp_all add: print_def)
  have d: "print ''started'' example_globals \<noteq> example_globals"
  proof
    assume "print ''started'' example_globals = example_globals"
    then have "stdout (print ''started'' example_globals) = stdout example_globals"
      by simp
    then show False
      by (simp add: print_def)
  qed
  have t: "predict_try example_runtime example_classifier example_encoders (Inr (NonObject ''list'')) =
     Inl (Exn AttributeError
       ([CHR 0x27] @ ''list'' @ [CHR 0x27] @ '' object has no attribute '' @ [CHR 0x27] @ ''get'' @ [CHR 0x27]))"
    by (simp add: predict_try_def quoted_def)
  then have s: "status (fst (predict example_runtime example_globals (Inr (NonObject ''list'')))) = 500"
    by (simp add: predict_def example_assets json_error_def)
  have r: "predict_try example_runtime example_classifier example_encoders (Inr example_request) =
     Inr \<lparr>body = Json [(''success'', JBool True), (''fertilizer_recommendation'', JStr ''Urea'')],
          status = 200\<rparr>"
    using predict_try_classifies
      [OF example_assets(3,4) example_numbers example_categories(1,2) example_codes,
        of example_classifier]
    by (simp add: example_request_def example_classifier_def example_runtime_def
        fertilizer_name_def FERTILIZER_MAPPING_def)
  then have n: "status (fst (predict example_runtime example_globals (Inr example_request))) \<noteq> 500"
    by (simp add: predict_def example_assets)
  from predict_twice_same_response [OF a, of example_runtime "Inr (NonObject ''list'')"]
    predict_twice_same_response [OF a, of example_runtime "Inr example_request"]
    a d t s n example_assets
  show ?thesis
    by auto
qed

subsection \<open>Absent categorical keys\<close>




end
